theory Spec2Isabelle
  imports Complex_Main
begin

section \<open>Shared conventions\<close>

text \<open>
  JavaScript values that the code tests for truthiness are modelled as options:
  \<open>None\<close> is \<open>undefined\<close>/\<open>null\<close>, and the remaining falsy value of the type
  (the empty string, the number 0) is written out in the test.
  An awaited call into an external service either throws or returns.
\<close>

datatype 'a rpc = Throws | Returns 'a

definition truthy_str :: "string option \<Rightarrow> bool" where
  "truthy_str s = (case s of None \<Rightarrow> False | Some v \<Rightarrow> v \<noteq> [])"

definition truthy_num :: "int option \<Rightarrow> bool" where
  "truthy_num n = (case n of None \<Rightarrow> False | Some v \<Rightarrow> v \<noteq> 0)"

definition or_null :: "string option \<Rightarrow> string option" where
  \<comment> \<open>\<open>x || null\<close> on an optional string\<close>
  "or_null s = (if truthy_str s then s else None)"

section \<open>api/src/services/solana-pay.ts\<close>

definition SOL_MINT :: string where
  "SOL_MINT = ''So11111111111111111111111111111111111111112''"

text \<open>
  The functions of \<open>@solana/web3.js\<close>, \<open>crypto\<close> and the JavaScript runtime that
  \<open>generatePaymentLink\<close> calls are parameters of the model.
\<close>

record solana_lib =
  PublicKey_new :: "string \<Rightarrow> string option"
    \<comment> \<open>\<open>new PublicKey(s).toString()\<close>; \<open>None\<close> when the constructor throws\<close>
  sha256 :: "string \<Rightarrow> string"
    \<comment> \<open>\<open>crypto.createHash("sha256").update(s).digest()\<close>\<close>
  Keypair_fromSeed :: "string \<Rightarrow> string"
    \<comment> \<open>\<open>Keypair.fromSeed(seed).publicKey.toString()\<close>\<close>
  Number_toString :: "rat \<Rightarrow> string"
    \<comment> \<open>\<open>Number.prototype.toString\<close>, on the exact quotient\<close>
  urlencode :: "string \<Rightarrow> string"
    \<comment> \<open>the form-urlencoding \<open>URLSearchParams.toString\<close> applies to names and values\<close>

definition decimals :: "string \<Rightarrow> nat" where
  "decimals tokenMint = (if tokenMint = SOL_MINT then 9 else 6)"

definition decimalAmount :: "int \<Rightarrow> string \<Rightarrow> rat" where
  "decimalAmount amount tokenMint = of_int amount / 10 ^ decimals tokenMint"

definition reference :: "('a solana_lib_scheme) \<Rightarrow> string \<Rightarrow> string" where
  "reference lib invoiceId = Keypair_fromSeed lib (sha256 lib invoiceId)"

definition payment_params ::
  "('a solana_lib_scheme) \<Rightarrow> string \<Rightarrow> int \<Rightarrow> string \<Rightarrow> string option \<Rightarrow> (string \<times> string) list"
where
  \<comment> \<open>the \<open>params.append\<close> calls, in order\<close>
  "payment_params lib invoiceId amount tokenMint memo =
     [(''amount'', Number_toString lib (decimalAmount amount tokenMint))]
     @ (if tokenMint \<noteq> SOL_MINT then [(''spl-token'', tokenMint)] else [])
     @ [(''reference'', reference lib invoiceId),
        (''label'', ''InvoiceNow''),
        (''message'',
           (if truthy_str memo then ''Invoice '' @ invoiceId @ '': '' @ the memo
            else ''Invoice '' @ invoiceId))]"

fun join_amp :: "string list \<Rightarrow> string" where
  "join_amp [] = []"
| "join_amp [p] = p"
| "join_amp (p # q # ps) = p @ ''&'' @ join_amp (q # ps)"

definition URLSearchParams_toString ::
  "('a solana_lib_scheme) \<Rightarrow> (string \<times> string) list \<Rightarrow> string" where
  "URLSearchParams_toString lib ps =
     join_amp (map (\<lambda>(k, v). urlencode lib k @ ''='' @ urlencode lib v) ps)"

definition generatePaymentLink ::
  "('a solana_lib_scheme) \<Rightarrow> string option \<Rightarrow> string \<Rightarrow> string \<Rightarrow> int \<Rightarrow> string
     \<Rightarrow> string option \<Rightarrow> string option"
where
  \<comment> \<open>\<open>api_url\<close> is \<open>process.env.API_URL\<close>, read into the unused \<open>baseUrl\<close>;
      the result is \<open>None\<close> when \<open>new PublicKey(recipient)\<close> throws\<close>
  "generatePaymentLink lib api_url invoiceId recipient amount tokenMint memo =
     (let baseUrl = (if truthy_str api_url then the api_url else ''http://localhost:3001'')
      in case PublicKey_new lib recipient of
           None \<Rightarrow> None
         | Some recipientPubkey \<Rightarrow>
             Some (''solana:'' @ recipientPubkey @ ''?''
                   @ URLSearchParams_toString lib
                       (payment_params lib invoiceId amount tokenMint memo)))"

text \<open>\<open>verifyPayment\<close>: the transaction that \<open>connection.getTransaction\<close> returns.\<close>

record tx_meta =
  err :: "string option"
    \<comment> \<open>\<open>null\<close> is \<open>None\<close>; the code tests the truthiness of the value\<close>

record tx_response =
  meta :: "tx_meta option"

definition verifyPayment_try ::
  "(string \<Rightarrow> tx_response option rpc) \<Rightarrow> string \<Rightarrow> string \<Rightarrow> int \<Rightarrow> string \<Rightarrow> unit + bool"
where
  \<comment> \<open>the body of the \<open>try\<close> block; \<open>Inl\<close> is a thrown exception\<close>
  "verifyPayment_try getTransaction signature expectedRecipient expectedAmount expectedMint =
     (case getTransaction signature of
        Throws \<Rightarrow> Inl ()
      | Returns tx \<Rightarrow>
          (case tx of
             None \<Rightarrow> Inr False
           | Some t \<Rightarrow>
               (case meta t of
                  None \<Rightarrow> Inr False
                | Some m \<Rightarrow> if truthy_str (err m) then Inr False else Inr True)))"

definition verifyPayment ::
  "(string \<Rightarrow> tx_response option rpc) \<Rightarrow> string \<Rightarrow> string \<Rightarrow> int \<Rightarrow> string \<Rightarrow> unit + bool"
where
  \<comment> \<open>the \<open>catch\<close> clause turns every exception into \<open>false\<close>\<close>
  "verifyPayment getTransaction signature expectedRecipient expectedAmount expectedMint =
     (case verifyPayment_try getTransaction signature expectedRecipient expectedAmount expectedMint of
        Inl e \<Rightarrow> Inr False
      | Inr b \<Rightarrow> Inr b)"

section \<open>api/src/db.ts: the invoices and clients tables\<close>

record milestone =
  description :: string
  milestone_amount :: int

text \<open>
  A row of \<open>invoices\<close>. Nullable columns are options. \<open>reminder_count\<close> and
  \<open>created_at\<close> always take their defaults on insertion and are never set to NULL.
  The \<open>milestones\<close> column holds \<open>JSON.stringify\<close> of the list, which the GET handlers
  parse back; the model keeps the list itself.
\<close>

record invoice_row =
  inv_id :: string  \<comment> \<open>column \<open>id\<close>, the primary key\<close>
  creator_wallet :: string
  client_email :: "string option"
  client_wallet :: "string option"
  amount :: int
  token_mint :: string
  due_date :: int
  memo :: "string option"
  status :: "string option"
  created_at :: int
  paid_at :: "int option"
  tx_signature :: "string option"
  on_chain_address :: "string option"
  payment_link :: "string option"
  milestones :: "milestone list option"
  reminder_count :: int
  last_reminder_at :: "int option"

record client_row =
  client_id :: string  \<comment> \<open>column \<open>id\<close>, the primary key\<close>
  owner_wallet :: string
  client_name :: string
  email :: "string option"
  wallet :: "string option"
  client_created_at :: int

record database =
  invoices :: "invoice_row list"
  clients :: "client_row list"

definition getById :: "('a database_scheme) \<Rightarrow> string \<Rightarrow> invoice_row option" where
  \<comment> \<open>\<open>SELECT * FROM invoices WHERE id = ?\<close>\<close>
  "getById db i = find (\<lambda>r. inv_id r = i) (invoices db)"

definition invoice_create :: "invoice_row \<Rightarrow> ('a database_scheme) \<Rightarrow> ('a database_scheme) option"
where
  \<comment> \<open>the INSERT; \<open>None\<close> when the primary key is taken and the statement throws\<close>
  "invoice_create r db =
     (if getById db (inv_id r) \<noteq> None then None
      else Some (db\<lparr>invoices := invoices db @ [r]\<rparr>))"

definition getByCreator :: "('a database_scheme) \<Rightarrow> string \<Rightarrow> invoice_row list" where
  \<comment> \<open>\<open>ORDER BY created_at DESC\<close>; the order among equal timestamps is not fixed by SQL\<close>
  "getByCreator db w = rev (sort_key created_at (filter (\<lambda>r. creator_wallet r = w) (invoices db)))"

definition updateStatus ::
  "string option \<Rightarrow> int option \<Rightarrow> string option \<Rightarrow> string \<Rightarrow> ('a database_scheme)
     \<Rightarrow> ('a database_scheme)"
where
  \<comment> \<open>\<open>UPDATE invoices SET status = ?, paid_at = ?, tx_signature = ? WHERE id = ?\<close>\<close>
  "updateStatus st paidAt sg i db =
     db\<lparr>invoices :=
          map (\<lambda>r. if inv_id r = i
                    then r\<lparr>status := st, paid_at := paidAt, tx_signature := sg\<rparr> else r)
            (invoices db)\<rparr>"

definition updateReminder :: "int \<Rightarrow> string \<Rightarrow> ('a database_scheme) \<Rightarrow> ('a database_scheme)" where
  \<comment> \<open>\<open>UPDATE invoices SET reminder_count = reminder_count + 1, last_reminder_at = ?
      WHERE id = ?\<close>\<close>
  "updateReminder t i db =
     db\<lparr>invoices :=
          map (\<lambda>r. if inv_id r = i
                    then r\<lparr>reminder_count := reminder_count r + 1, last_reminder_at := Some t\<rparr>
                    else r)
            (invoices db)\<rparr>"

definition client_getById :: "('a database_scheme) \<Rightarrow> string \<Rightarrow> client_row option" where
  "client_getById db i = find (\<lambda>c. client_id c = i) (clients db)"

definition client_create :: "client_row \<Rightarrow> ('a database_scheme) \<Rightarrow> ('a database_scheme) option"
where
  "client_create c db =
     (if client_getById db (client_id c) \<noteq> None then None
      else Some (db\<lparr>clients := clients db @ [c]\<rparr>))"

definition getByOwner :: "('a database_scheme) \<Rightarrow> string \<Rightarrow> client_row list" where
  "getByOwner db w = filter (\<lambda>c. owner_wallet c = w) (clients db)"

section \<open>api/src/routes/invoices.ts: the invoice router\<close>

text \<open>
  What a handler reads from outside the request and the database: the library behind
  \<open>generatePaymentLink\<close>, the clock, \<open>nanoid\<close>, the environment, the mail service and
  the QR encoder.
\<close>

record api_world = solana_lib +
  now :: int  \<comment> \<open>\<open>Math.floor(Date.now() / 1000)\<close> and SQLite's \<open>strftime('%s', 'now')\<close>\<close>
  nanoid :: "nat \<Rightarrow> string"
  API_URL :: "string option"
  sendReminderEmail :: "invoice_row \<Rightarrow> unit rpc"
  QRCode_toDataURL :: "string option \<Rightarrow> string rpc"

record CreateInvoiceBody =
  creatorWallet :: "string option"
  clientEmail :: "string option"
  body_amount :: "int option"
  tokenMint :: "string option"
  dueDate :: "int option"
  body_memo :: "string option"
  body_milestones :: "milestone list option"

record CreateClientBody =
  ownerWallet :: "string option"
  body_name :: "string option"
  body_email :: "string option"
  body_wallet :: "string option"

text \<open>
  The \<open>status\<close> field of the PATCH body is untyped. A missing value and JSON \<open>null\<close> are
  both bound to the statement as NULL, a string as itself.
\<close>

datatype js_string = Undefined | Null | Str string

datatype resp_body =
    json_error string
  | json_created "invoice_row option" string string
      \<comment> \<open>the stored row, \<open>paymentLink\<close>, \<open>qrCodeUrl\<close>\<close>
  | json_invoices "invoice_row list"
  | json_invoice invoice_row
  | json_success "string option"
  | json_qrCode string
  | json_client "client_row option"
  | json_clients "client_row list"

record response =
  code :: nat
  body :: resp_body

definition toUpperCase :: "string \<Rightarrow> string" where
  "toUpperCase s =
     map (\<lambda>c. let n = (of_char c :: nat) in if 97 \<le> n \<and> n \<le> 122 then char_of (n - 32) else c) s"

definition error_response :: "nat \<Rightarrow> string \<Rightarrow> response" where
  "error_response c msg = \<lparr>code = c, body = json_error msg\<rparr>"

definition post_invoice ::
  "('a api_world_scheme) \<Rightarrow> CreateInvoiceBody \<Rightarrow> database \<Rightarrow> response \<times> database" where
  "post_invoice w b db =
    (if \<not> truthy_str (creatorWallet b) \<or> \<not> truthy_num (body_amount b)
        \<or> \<not> truthy_str (tokenMint b) \<or> \<not> truthy_num (dueDate b) then
       (error_response 400 ''Missing required fields'', db)
     else
       (let i = ''INV-'' @ toUpperCase (nanoid w 8) in
        (case generatePaymentLink w (API_URL w) i (the (creatorWallet b)) (the (body_amount b))
                (the (tokenMint b)) (body_memo b) of
           None \<Rightarrow> (error_response 500 ''Failed to create invoice'', db)
         | Some paymentLink \<Rightarrow>
             (case invoice_create
                     \<lparr>inv_id = i, creator_wallet = the (creatorWallet b),
                      client_email = or_null (clientEmail b), client_wallet = None,
                      amount = the (body_amount b), token_mint = the (tokenMint b),
                      due_date = the (dueDate b), memo = or_null (body_memo b),
                      status = Some ''pending'', created_at = now w, paid_at = None,
                      tx_signature = None, on_chain_address = None,
                      payment_link = Some paymentLink, milestones = body_milestones b,
                      reminder_count = 0, last_reminder_at = None\<rparr> db of
                None \<Rightarrow> (error_response 500 ''Failed to create invoice'', db)
              | Some db' \<Rightarrow>
                  (\<lparr>code = 201,
                    body = json_created (getById db' i) paymentLink (''/pay/'' @ i @ ''/qr'')\<rparr>,
                   db')))))"

definition get_invoices ::
  "('a api_world_scheme) \<Rightarrow> string option \<Rightarrow> database \<Rightarrow> response \<times> database" where
  "get_invoices w q db =
    (if \<not> truthy_str q then (error_response 400 ''Wallet address required'', db)
     else (\<lparr>code = 200, body = json_invoices (getByCreator db (the q))\<rparr>, db))"

definition get_invoice ::
  "('a api_world_scheme) \<Rightarrow> string \<Rightarrow> database \<Rightarrow> response \<times> database" where
  "get_invoice w i db =
    (case getById db i of
       None \<Rightarrow> (error_response 404 ''Invoice not found'', db)
     | Some invoice \<Rightarrow> (\<lparr>code = 200, body = json_invoice invoice\<rparr>, db))"

definition post_remind ::
  "('a api_world_scheme) \<Rightarrow> string \<Rightarrow> database \<Rightarrow> response \<times> database" where
  "post_remind w i db =
    (case getById db i of
       None \<Rightarrow> (error_response 404 ''Invoice not found'', db)
     | Some invoice \<Rightarrow>
         if status invoice \<noteq> Some ''pending'' then
           (error_response 400 ''Invoice is not pending'', db)
         else if \<not> truthy_str (client_email invoice) then
           (error_response 400 ''No client email on invoice'', db)
         else
           (case sendReminderEmail w invoice of
              Throws \<Rightarrow> (error_response 500 ''Failed to send reminder'', db)
            | Returns u \<Rightarrow>
                (\<lparr>code = 200, body = json_success (Some ''Reminder sent'')\<rparr>,
                 updateReminder (now w) i db)))"

definition patch_status ::
  "('a api_world_scheme) \<Rightarrow> string \<Rightarrow> js_string \<Rightarrow> string option \<Rightarrow> database
     \<Rightarrow> response \<times> database"
where
  "patch_status w i st sg db =
    (case getById db i of
       None \<Rightarrow> (error_response 404 ''Invoice not found'', db)
     | Some invoice \<Rightarrow>
         (let paidAt = (if st = Str ''paid'' then Some (now w) else None) in
          (case st of
             Undefined \<Rightarrow>
               (\<lparr>code = 200, body = json_success None\<rparr>,
                updateStatus None paidAt (or_null sg) i db)
           | Null \<Rightarrow>
               (\<lparr>code = 200, body = json_success None\<rparr>,
                updateStatus None paidAt (or_null sg) i db)
           | Str s \<Rightarrow>
               (\<lparr>code = 200, body = json_success None\<rparr>,
                updateStatus (Some s) paidAt (or_null sg) i db))))"

definition get_qr ::
  "('a api_world_scheme) \<Rightarrow> string \<Rightarrow> database \<Rightarrow> response \<times> database" where
  "get_qr w i db =
    (case getById db i of
       None \<Rightarrow> (error_response 404 ''Invoice not found'', db)
     | Some invoice \<Rightarrow>
         (case QRCode_toDataURL w (payment_link invoice) of
            Throws \<Rightarrow> (error_response 500 ''Failed to generate QR code'', db)
          | Returns qrDataUrl \<Rightarrow> (\<lparr>code = 200, body = json_qrCode qrDataUrl\<rparr>, db)))"

definition post_client ::
  "('a api_world_scheme) \<Rightarrow> CreateClientBody \<Rightarrow> database \<Rightarrow> response \<times> database" where
  "post_client w b db =
    (if \<not> truthy_str (ownerWallet b) \<or> \<not> truthy_str (body_name b) then
       (error_response 400 ''Owner wallet and name required'', db)
     else
       (let i = nanoid w 10 in
        (case client_create
                \<lparr>client_id = i, owner_wallet = the (ownerWallet b),
                 client_name = the (body_name b), email = or_null (body_email b),
                 wallet = or_null (body_wallet b), client_created_at = now w\<rparr> db of
           None \<Rightarrow> (error_response 500 ''Failed to create client'', db)
         | Some db' \<Rightarrow> (\<lparr>code = 201, body = json_client (client_getById db' i)\<rparr>, db'))))"

definition get_clients ::
  "('a api_world_scheme) \<Rightarrow> string option \<Rightarrow> database \<Rightarrow> response \<times> database" where
  "get_clients w q db =
    (if \<not> truthy_str q then (error_response 400 ''Wallet address required'', db)
     else (\<lparr>code = 200, body = json_clients (getByOwner db (the q))\<rparr>, db))"

text \<open>
  The requests the router receives, and the dispatch of a request to its handler. The
  route \<open>GET /:id\<close> is registered before \<open>GET /clients\<close> and matches that path with
  the id \<open>clients\<close>, so the handler \<open>get_clients\<close> is never reached.
\<close>

datatype request =
    POST_invoice CreateInvoiceBody
  | GET_invoices "string option"
  | GET_invoice string
  | POST_remind string
  | PATCH_status string js_string "string option"
  | GET_qr string
  | POST_client CreateClientBody
  | GET_clients "string option"

fun handle :: "('a api_world_scheme) \<Rightarrow> request \<Rightarrow> database \<Rightarrow> response \<times> database" where
  "handle w (POST_invoice b) db = post_invoice w b db"
| "handle w (GET_invoices q) db = get_invoices w q db"
| "handle w (GET_invoice i) db = get_invoice w i db"
| "handle w (POST_remind i) db = post_remind w i db"
| "handle w (PATCH_status i st sg) db = patch_status w i st sg db"
| "handle w (GET_qr i) db = get_qr w i db"
| "handle w (POST_client b) db = post_client w b db"
| "handle w (GET_clients q) db = get_invoice w ''clients'' db"

definition missing_fields :: "CreateInvoiceBody \<Rightarrow> bool" where
  \<comment> \<open>the test \<open>!creatorWallet || !amount || !tokenMint || !dueDate\<close> of \<open>POST /\<close>\<close>
  "missing_fields b =
     (\<not> truthy_str (creatorWallet b) \<or> \<not> truthy_num (body_amount b)
      \<or> \<not> truthy_str (tokenMint b) \<or> \<not> truthy_num (dueDate b))"

definition valid_status :: "string option \<Rightarrow> bool" where
  "valid_status st =
     (st = Some ''pending'' \<or> st = Some ''paid'' \<or> st = Some ''cancelled''
      \<or> st = Some ''escrow_funded'')"

section \<open>app/pages/pay/[id].tsx: the payment page\<close>

record PaymentData =
  data_id :: string
  data_creatorWallet :: string
  data_amount :: int
  data_tokenMint :: string

definition getPaymentAmount :: "PaymentData option \<Rightarrow> bool \<Rightarrow> int" where
  "getPaymentAmount data doubleOrNothing =
     (case data of
        None \<Rightarrow> 0
      | Some d \<Rightarrow> if doubleOrNothing then data_amount d * 2 else data_amount d)"

definition hasEnoughBalance :: "int option \<Rightarrow> PaymentData option \<Rightarrow> bool \<Rightarrow> bool" where
  "hasEnoughBalance walletBalance data doubleOrNothing =
     (case (walletBalance, data) of
        (Some b, Some d) \<Rightarrow>
          (let feeBuffer = (if data_tokenMint d = SOL_MINT then 10000000 else 0)
           in b \<ge> getPaymentAmount data doubleOrNothing + feeBuffer)
      | _ \<Rightarrow> False)"

text \<open>The React state that \<open>handlePay\<close> reads.\<close>

record page_state =
  publicKey :: "string option"
  signTransaction :: bool  \<comment> \<open>the wallet adapter offers \<open>signTransaction\<close>\<close>
  data :: "PaymentData option"
  walletBalance :: "int option"
  doubleOrNothing :: bool
  poolWalletAddress :: "string option"

datatype instruction =
    SystemProgram_transfer string string int  \<comment> \<open>fromPubkey, toPubkey, lamports\<close>
  | createAssociatedTokenAccountInstruction string string string string
      \<comment> \<open>payer, associated token account, owner, mint\<close>
  | createTransferInstruction string string string int
      \<comment> \<open>source, destination, owner, amount\<close>

fun transfer_amount :: "instruction \<Rightarrow> int" where
  "transfer_amount (SystemProgram_transfer f t n) = n"
| "transfer_amount (createAssociatedTokenAccountInstruction p a ow mi) = 0"
| "transfer_amount (createTransferInstruction sr ds ow n) = n"

definition total_transferred :: "instruction list \<Rightarrow> int" where
  "total_transferred tx = sum_list (map transfer_amount tx)"

datatype exn = Thrown  \<comment> \<open>an exception of a library or of the network\<close>
  | Error string       \<comment> \<open>\<open>new Error(message)\<close> thrown by the page itself\<close>

datatype toast = toast_error string | toast_error_of exn | toast_success string

record verify_response =
  ok :: bool
  error_field :: "string option rpc"
    \<comment> \<open>the \<open>error\<close> field of the parsed body; \<open>Throws\<close> when \<open>json()\<close> rejects\<close>

record entry_args =
  invoiceId :: string
  clientWallet :: string
  premiumPaid :: int
  riskSlider :: int
  txSignature :: string

text \<open>Everything \<open>handlePay\<close> awaits: the RPC node, the wallet and the backend.\<close>

record pay_world =
  pubkey :: "string \<Rightarrow> string option"
    \<comment> \<open>\<open>new PublicKey(s)\<close>; \<open>None\<close> when it throws\<close>
  getAssociatedTokenAddress :: "string \<Rightarrow> string \<Rightarrow> string option"
    \<comment> \<open>mint, owner; \<open>None\<close> when it throws\<close>
  getAccount :: "string \<Rightarrow> bool"
    \<comment> \<open>false when the account lookup throws\<close>
  getLatestBlockhash :: "unit rpc"
  wallet_sign :: "instruction list \<Rightarrow> unit rpc"
  sendRawTransaction :: "instruction list \<Rightarrow> string rpc"
  getSignatureStatuses :: "nat \<Rightarrow> string \<Rightarrow> string option rpc"
    \<comment> \<open>the \<open>confirmationStatus\<close> seen by the i-th poll\<close>
  fetch_verify :: "string \<Rightarrow> string \<Rightarrow> int option \<Rightarrow> verify_response rpc"
    \<comment> \<open>POST /api/v1/hooks/verify-payment with invoiceId, txSignature, expectedAmount\<close>
  createLotteryEntry :: "entry_args \<Rightarrow> string rpc"
    \<comment> \<open>returns the id of the entry\<close>
  settleLottery :: "string \<Rightarrow> bool rpc"
    \<comment> \<open>returns \<open>result.won\<close>\<close>

record pay_result =
  toasts :: "toast list"
  submitted :: "instruction list option"
    \<comment> \<open>the transaction for which \<open>sendRawTransaction\<close> returned a signature\<close>
  createLotteryEntry_call :: "entry_args option"
    \<comment> \<open>the arguments of the call to \<open>createLotteryEntry\<close>, when it is reached\<close>
  spin :: "bool option"
    \<comment> \<open>\<open>won\<close>, when the wheel is shown\<close>
  marked_paid :: bool
    \<comment> \<open>\<open>setData({ ...data, status: "paid" })\<close> was reached\<close>

definition build_transaction ::
  "('a pay_world_scheme) \<Rightarrow> string \<Rightarrow> PaymentData \<Rightarrow> bool \<Rightarrow> string option
     \<Rightarrow> exn + instruction list"
where
  "build_transaction w pk d don pool =
    (case pubkey w (data_creatorWallet d) of
       None \<Rightarrow> Inl Thrown
     | Some recipientPubkey \<Rightarrow>
    (case pubkey w (data_tokenMint d) of
       None \<Rightarrow> Inl Thrown
     | Some mintPubkey \<Rightarrow>
    (let paymentAmount = getPaymentAmount (Some d) don;
         invoiceAmount = data_amount d;
         premiumAmount = paymentAmount - invoiceAmount;
         isLottery = (don \<and> premiumAmount > 0 \<and> truthy_str pool)
     in
     if data_tokenMint d = SOL_MINT then
       (if isLottery then
          (case pubkey w (the pool) of
             None \<Rightarrow> Inl Thrown
           | Some poolPubkey \<Rightarrow>
               Inr [SystemProgram_transfer pk recipientPubkey invoiceAmount,
                    SystemProgram_transfer pk poolPubkey premiumAmount])
        else Inr [SystemProgram_transfer pk recipientPubkey invoiceAmount])
     else
       (case getAssociatedTokenAddress w mintPubkey pk of
          None \<Rightarrow> Inl Thrown
        | Some payerAta \<Rightarrow>
       (case getAssociatedTokenAddress w mintPubkey recipientPubkey of
          None \<Rightarrow> Inl Thrown
        | Some recipientAta \<Rightarrow>
       (let to_creator =
              (if getAccount w recipientAta then []
               else [createAssociatedTokenAccountInstruction pk recipientAta recipientPubkey
                       mintPubkey])
              @ [createTransferInstruction payerAta recipientAta pk invoiceAmount]
        in
        if isLottery then
          (case pubkey w (the pool) of
             None \<Rightarrow> Inl Thrown
           | Some poolPubkey \<Rightarrow>
          (case getAssociatedTokenAddress w mintPubkey poolPubkey of
             None \<Rightarrow> Inl Thrown
           | Some poolAta \<Rightarrow>
               Inr (to_creator
                    @ (if getAccount w poolAta then []
                       else [createAssociatedTokenAccountInstruction pk poolAta poolPubkey
                               mintPubkey])
                    @ [createTransferInstruction payerAta poolAta pk premiumAmount])))
        else Inr to_creator))))))"

function poll :: "(nat \<Rightarrow> string option rpc) \<Rightarrow> nat \<Rightarrow> exn + bool" where
  \<comment> \<open>\<open>for (let i = 0; i < 30; i++)\<close>: the result is \<open>confirmed\<close>\<close>
  "poll st i =
     (if i < 30 then
        (case st i of
           Throws \<Rightarrow> Inl Thrown
         | Returns c \<Rightarrow>
             if c = Some ''confirmed'' \<or> c = Some ''finalized'' then Inr True
             else poll st (Suc i))
      else Inr False)"
  by pat_completeness auto
termination
  by (relation "measure (\<lambda>(st, i). 30 - i)") auto

declare poll.simps [simp del]

definition failed ::
  "exn \<Rightarrow> instruction list option \<Rightarrow> entry_args option \<Rightarrow> pay_result" where
  \<comment> \<open>the \<open>catch\<close> clause: \<open>toast.error(error.message || "Payment failed")\<close>\<close>
  "failed e tx en =
     \<lparr>toasts = [toast_error_of e], submitted = tx, createLotteryEntry_call = en,
      spin = None, marked_paid = False\<rparr>"

definition verify_error_message :: "('a verify_response_scheme) \<Rightarrow> string" where
  \<comment> \<open>\<open>err.error || "Payment verification failed"\<close>, where \<open>err\<close> is the parsed body or
      \<open>{ error: "Verification failed" }\<close> when parsing fails\<close>
  "verify_error_message res =
     (case error_field res of
        Throws \<Rightarrow> ''Verification failed''
      | Returns e \<Rightarrow> if truthy_str e then the e else ''Payment verification failed'')"

definition after_payment ::
  "('a pay_world_scheme) \<Rightarrow> string \<Rightarrow> PaymentData \<Rightarrow> bool \<Rightarrow> instruction list \<Rightarrow> string
     \<Rightarrow> pay_result"
where
  \<comment> \<open>what follows the confirmation of the transaction with signature \<open>sg\<close>\<close>
  "after_payment w pk d don tx sg =
    (let paymentAmount = getPaymentAmount (Some d) don in
     if don then
       (let premium = paymentAmount - data_amount d in
        (case fetch_verify w (data_id d) sg (Some (data_amount d)) of
           Throws \<Rightarrow> failed Thrown (Some tx) None
         | Returns verifyRes \<Rightarrow>
             if \<not> ok verifyRes then
               failed (Error (verify_error_message verifyRes)) (Some tx) None
             else
               (let args = \<lparr>invoiceId = data_id d, clientWallet = pk, premiumPaid = premium,
                             riskSlider = 50, txSignature = sg\<rparr>
                in (case createLotteryEntry w args of
                      Throws \<Rightarrow> failed Thrown (Some tx) (Some args)
                    | Returns entry_id \<Rightarrow>
                        (case settleLottery w entry_id of
                           Throws \<Rightarrow> failed Thrown (Some tx) (Some args)
                         | Returns won \<Rightarrow>
                             \<lparr>toasts =
                                [toast_success (if won then ''YOU WON! Invoice is FREE!''
                                                else ''Invoice paid!'')],
                              submitted = Some tx, createLotteryEntry_call = Some args,
                              spin = Some won, marked_paid = True\<rparr>)))))
     else
       (case fetch_verify w (data_id d) sg None of
          Throws \<Rightarrow> failed Thrown (Some tx) None
        | Returns stdVerifyRes \<Rightarrow>
            \<lparr>toasts =
               [if \<not> ok stdVerifyRes then
                  toast_error
                    ''Payment sent but verification failed. It will be confirmed shortly.''
                else toast_success ''Payment sent!''],
             submitted = Some tx, createLotteryEntry_call = None, spin = None,
             marked_paid = True\<rparr>))"

definition submit ::
  "('a pay_world_scheme) \<Rightarrow> string \<Rightarrow> PaymentData \<Rightarrow> bool \<Rightarrow> instruction list \<Rightarrow> pay_result"
where
  \<comment> \<open>blockhash, signature of the wallet, sending, and the wait for confirmation\<close>
  "submit w pk d don tx =
    (case getLatestBlockhash w of
       Throws \<Rightarrow> failed Thrown None None
     | Returns u \<Rightarrow>
    (case wallet_sign w tx of
       Throws \<Rightarrow> failed Thrown None None
     | Returns u' \<Rightarrow>
    (case sendRawTransaction w tx of
       Throws \<Rightarrow> failed Thrown None None
     | Returns sg \<Rightarrow>
    (case poll (\<lambda>i. getSignatureStatuses w i sg) 0 of
       Inl e \<Rightarrow> failed e (Some tx) None
     | Inr confirmed \<Rightarrow>
         if \<not> confirmed then
           failed (Error ''Transaction confirmation timeout'') (Some tx) None
         else after_payment w pk d don tx sg))))"

definition handlePay :: "('a pay_world_scheme) \<Rightarrow> ('b page_state_scheme) \<Rightarrow> pay_result" where
  "handlePay w s =
    (if publicKey s = None \<or> \<not> signTransaction s \<or> data s = None then
       \<lparr>toasts = [toast_error ''Please connect your wallet''], submitted = None,
        createLotteryEntry_call = None, spin = None, marked_paid = False\<rparr>
     else if \<not> hasEnoughBalance (walletBalance s) (data s) (doubleOrNothing s) then
       \<lparr>toasts = [toast_error ''Insufficient balance''], submitted = None,
        createLotteryEntry_call = None, spin = None, marked_paid = False\<rparr>
     else
       (case build_transaction w (the (publicKey s)) (the (data s)) (doubleOrNothing s)
               (poolWalletAddress s) of
          Inl e \<Rightarrow> failed e None None
        | Inr tx \<Rightarrow> submit w (the (publicKey s)) (the (data s)) (doubleOrNothing s) tx))"

text \<open>
  The formula of the specification, in its own words:
  payment amount = invoice amount \<times> (1 + risk/50).
\<close>

definition spec_payment :: "int \<Rightarrow> rat \<Rightarrow> rat" where
  "spec_payment amt risk = of_int amt * (1 + risk / 50)"

section \<open>Lottery settlement\<close>

text \<open>
  The settlement route (\<open>api/src/routes/lottery.ts\<close>, behind \<open>settleLottery\<close> and
  \<open>POST /v1/spin/settle/:entryId\<close>) is not among the sources; only its caller on the
  payment page is. The pool, the entry and the settlement below follow the specification.
\<close>

text \<open>Modelled from the spec: the outcome of an entry (won/lost); its declaration is missing.\<close>

datatype outcome = won | lost

text \<open>
  Modelled from the spec: the \<open>LotteryPool\<close> of the data model (balance, house edge %,
  minimum reserve %, max single-win cap %, paused flag); its declaration is missing.
\<close>

record LotteryPool =
  balance :: int
  house_edge_percent :: int
  min_reserve_percent :: int
  max_win_percent :: int
  paused :: bool

text \<open>
  Modelled from the spec: the \<open>LotteryEntry\<close> of the data model (invoice reference, client
  wallet, premium paid, risk percentage, transaction signature, outcome, settlement
  timestamp); its declaration is missing. An entry without outcome is not settled yet.
\<close>

record LotteryEntry =
  invoice_ref :: string
  entry_client_wallet :: string
  premium_paid :: int
  risk_percent :: int
  entry_tx_signature :: string
  entry_outcome :: "outcome option"
  settled_at :: "int option"

text \<open>
  Modelled from the spec: the two pool constraints of the settlement, which is missing:
  a single payout is capped at the max single-win percentage of the pool balance, and the
  pool must still hold the minimum reserve percentage of that balance after the payout.
\<close>

definition payout_allowed :: "('a LotteryPool_scheme) \<Rightarrow> int \<Rightarrow> bool" where
  "payout_allowed pool p =
     (p * 100 \<le> balance pool * max_win_percent pool
      \<and> (balance pool - p) * 100 \<ge> balance pool * min_reserve_percent pool)"

text \<open>
  Modelled from the spec: what a settlement reports and leaves behind; the response type of
  the settlement route is missing.
\<close>

datatype settle_result = Settled outcome | AlreadySettled outcome | FailedClosed

record settlement =
  result :: settle_result
  payout :: int
  pool_after :: LotteryPool
  entry_after :: LotteryEntry

text \<open>
  Modelled from the spec: the settlement of a lottery entry, which is missing. An entry
  that carries an outcome is returned as it is, with no payout. Otherwise one draw in
  \<open>[0, 100)\<close> wins with probability risk%, a win pays the invoice amount back out of the
  pool, and a payout that violates a pool constraint fails closed: nothing is paid and
  nothing is recorded. The specification does not say where the premium and the house
  edge are booked, so the pool balance changes by the payout only.
\<close>

definition settle ::
  "LotteryPool \<Rightarrow> LotteryEntry \<Rightarrow> int \<Rightarrow> int \<Rightarrow> int \<Rightarrow> settlement" where
  "settle pool e invoice_amount draw t =
     (case entry_outcome e of
        Some oc \<Rightarrow>
          \<lparr>result = AlreadySettled oc, payout = 0, pool_after = pool, entry_after = e\<rparr>
      | None \<Rightarrow>
          (let oc = (if draw < risk_percent e then won else lost);
               p = (if oc = won then invoice_amount else 0)
           in if \<not> payout_allowed pool p then
                \<lparr>result = FailedClosed, payout = 0, pool_after = pool, entry_after = e\<rparr>
              else
                \<lparr>result = Settled oc, payout = p,
                 pool_after = pool\<lparr>balance := balance pool - p\<rparr>,
                 entry_after = e\<lparr>entry_outcome := Some oc, settled_at := Some t\<rparr>\<rparr>))"

section \<open>Concrete inputs\<close>

text \<open>
  Worlds, states and rows on which the definitions are evaluated: a payment page world in
  which every awaited call succeeds, and a library in which \<open>PublicKey\<close> accepts exactly
  the strings of 32 to 44 characters.
\<close>

definition pay_world_ok :: pay_world where
  "pay_world_ok =
     \<lparr>pubkey = Some,
      getAssociatedTokenAddress = (\<lambda>mi ow. Some (ow @ ''/'' @ mi)),
      getAccount = (\<lambda>a. True),
      getLatestBlockhash = Returns (),
      wallet_sign = (\<lambda>tx. Returns ()),
      sendRawTransaction = (\<lambda>tx. Returns ''sig1''),
      getSignatureStatuses = (\<lambda>i sg. Returns (Some ''confirmed'')),
      fetch_verify = (\<lambda>i sg a. Returns \<lparr>ok = True, error_field = Returns None\<rparr>),
      createLotteryEntry = (\<lambda>a. Returns ''entry1''),
      settleLottery = (\<lambda>i. Returns False)\<rparr>"

definition invoice_100 :: PaymentData where
  "invoice_100 =
     \<lparr>data_id = ''INV-1'', data_creatorWallet = ''creator'', data_amount = 100,
      data_tokenMint = SOL_MINT\<rparr>"

definition page_double :: "string option \<Rightarrow> page_state" where
  \<comment> \<open>double or nothing switched on, with the given pool wallet address\<close>
  "page_double pool =
     \<lparr>publicKey = Some ''client'', signTransaction = True, data = Some invoice_100,
      walletBalance = Some 1000000000, doubleOrNothing = True, poolWalletAddress = pool\<rparr>"

definition api_world_ok :: api_world where
  "api_world_ok =
     \<lparr>PublicKey_new = (\<lambda>s. if 32 \<le> length s \<and> length s \<le> 44 then Some s else None),
      sha256 = (\<lambda>s. ''sha256:'' @ s),
      Keypair_fromSeed = (\<lambda>s. ''key:'' @ s),
      Number_toString = (\<lambda>q. ''num''),
      urlencode = (\<lambda>s. s),
      now = 1700000000,
      nanoid = (\<lambda>n. take n ''aB3x_9QzLm''),
      API_URL = None,
      sendReminderEmail = (\<lambda>r. Returns ()),
      QRCode_toDataURL = (\<lambda>l. Returns ''data:image/png'')\<rparr>"

definition body_ok :: CreateInvoiceBody where
  "body_ok =
     \<lparr>creatorWallet = Some SOL_MINT, clientEmail = Some ''client@example.com'',
      body_amount = Some 1500000000, tokenMint = Some SOL_MINT, dueDate = Some 1800000000,
      body_memo = None, body_milestones = None\<rparr>"

definition row_1 :: invoice_row where
  "row_1 =
     \<lparr>inv_id = ''INV-1'', creator_wallet = SOL_MINT, client_email = Some ''client@example.com'',
      client_wallet = None, amount = 100, token_mint = SOL_MINT, due_date = 1800000000,
      memo = None, status = Some ''pending'', created_at = 1690000000, paid_at = None,
      tx_signature = None, on_chain_address = None, payment_link = Some ''solana:x'',
      milestones = None, reminder_count = 0, last_reminder_at = None\<rparr>"

definition db_1 :: database where
  "db_1 = \<lparr>invoices = [row_1], clients = []\<rparr>"

definition pool_1000 :: LotteryPool where
  "pool_1000 =
     \<lparr>balance = 1000, house_edge_percent = 5, min_reserve_percent = 20, max_win_percent = 10,
      paused = False\<rparr>"

definition entry_1 :: LotteryEntry where
  "entry_1 =
     \<lparr>invoice_ref = ''INV-1'', entry_client_wallet = ''client'', premium_paid = 100,
      risk_percent = 50, entry_tx_signature = ''sig1'', entry_outcome = None,
      settled_at = None\<rparr>"

section \<open>Lemmas on the tables\<close>

lemma find_append_None:
  "find P xs = None \<Longrightarrow> find P (xs @ ys) = find P ys"
  by (induction xs) (auto split: if_splits)

lemma find_append_Some:
  "find P xs = Some x \<Longrightarrow> find P (xs @ ys) = Some x"
  by (induction xs) (auto split: if_splits)

lemma getById_create_same:
  "invoice_create r db = Some db' \<Longrightarrow> getById db' (inv_id r) = Some r"
  by (auto simp add: invoice_create_def getById_def find_append_None split: if_splits)

lemma getById_create_other:
  "invoice_create r db = Some db' \<Longrightarrow> j \<noteq> inv_id r \<Longrightarrow> getById db' j = getById db j"
  by (cases "find (\<lambda>r. inv_id r = j) (invoices db)")
     (auto simp add: invoice_create_def getById_def find_append_None find_append_Some
       split: if_splits)

lemma find_map_update:
  assumes "\<And>r. inv_id (f r) = inv_id r"
  shows "find (\<lambda>r. inv_id r = j) (map (\<lambda>r. if inv_id r = i then f r else r) xs)
     = (if j = i then map_option f (find (\<lambda>r. inv_id r = i) xs)
        else find (\<lambda>r. inv_id r = j) xs)"
  using assms by (induction xs) auto

lemma getById_updateReminder:
  "getById (updateReminder t i db) j
     = (if j = i
        then map_option
               (\<lambda>r. r\<lparr>reminder_count := reminder_count r + 1, last_reminder_at := Some t\<rparr>)
               (getById db i)
        else getById db j)"
  unfolding getById_def updateReminder_def
  by (simp add: find_map_update)

lemma updateReminder_rest:
  "clients (updateReminder t i db) = clients db"
  "length (invoices (updateReminder t i db)) = length (invoices db)"
  by (simp_all add: updateReminder_def)

lemma getById_updateStatus:
  "getById (updateStatus st pa sg i db) j
     = (if j = i
        then map_option (\<lambda>r. r\<lparr>status := st, paid_at := pa, tx_signature := sg\<rparr>)
               (getById db i)
        else getById db j)"
  unfolding getById_def updateStatus_def
  by (simp add: find_map_update)

section \<open>Lemmas on the payment page\<close>

lemma after_payment_entry:
  "createLotteryEntry_call (after_payment w pk d don tx sg) = Some e \<Longrightarrow>
     don \<and> riskSlider e = 50 \<and> premiumPaid e = getPaymentAmount (Some d) don - data_amount d
     \<and> invoiceId e = data_id d \<and> clientWallet e = pk \<and> txSignature e = sg"
  by (auto simp add: after_payment_def failed_def Let_def split: rpc.splits if_splits)

lemma submit_entry:
  "createLotteryEntry_call (submit w pk d don tx) = Some e \<Longrightarrow>
     don \<and> riskSlider e = 50 \<and> premiumPaid e = getPaymentAmount (Some d) don - data_amount d
     \<and> invoiceId e = data_id d \<and> clientWallet e = pk"
  by (auto simp add: submit_def failed_def dest: after_payment_entry
      split: rpc.splits sum.splits if_splits)

lemma after_payment_submitted:
  "submitted (after_payment w pk d don tx sg) = Some tx"
  by (auto simp add: after_payment_def failed_def Let_def split: rpc.splits if_splits)

lemma submit_submitted:
  "createLotteryEntry_call (submit w pk d don tx) = Some e \<Longrightarrow>
     submitted (submit w pk d don tx) = Some tx"
  by (auto simp add: submit_def failed_def after_payment_submitted
      split: rpc.splits sum.splits if_splits)

lemma handlePay_submitted:
  "createLotteryEntry_call (handlePay w s) = Some e \<Longrightarrow>
     \<exists>tx. submitted (handlePay w s) = Some tx
        \<and> build_transaction w (the (publicKey s)) (the (data s)) (doubleOrNothing s)
             (poolWalletAddress s) = Inr tx"
  by (auto simp add: handlePay_def failed_def dest: submit_submitted
      split: sum.splits if_splits)

lemma poll_confirmed: "poll (\<lambda>i. Returns (Some ''confirmed'')) 0 = Inr True"
  by (simp add: poll.simps [of _ 0])

lemma handlePay_double_pool:
  "handlePay pay_world_ok (page_double (Some ''pool'')) =
     \<lparr>toasts = [toast_success ''Invoice paid!''],
      submitted = Some [SystemProgram_transfer ''client'' ''creator'' 100,
                        SystemProgram_transfer ''client'' ''pool'' 100],
      createLotteryEntry_call =
        Some \<lparr>invoiceId = ''INV-1'', clientWallet = ''client'', premiumPaid = 100,
              riskSlider = 50, txSignature = ''sig1''\<rparr>,
      spin = Some False, marked_paid = True\<rparr>"
  by (simp add: handlePay_def page_double_def invoice_100_def hasEnoughBalance_def
      getPaymentAmount_def build_transaction_def truthy_str_def pay_world_ok_def
      submit_def poll_confirmed after_payment_def Let_def)

text \<open>
  When the pool wallet address is known and the invoice amount is positive, the transfers
  of the transaction add up to the payment amount.
\<close>

lemma build_transaction_total:
  "build_transaction w pk d don pool = Inr tx \<Longrightarrow>
   (don \<longrightarrow> 0 < data_amount d \<and> truthy_str pool) \<Longrightarrow>
   total_transferred tx = getPaymentAmount (Some d) don"
  by (auto simp add: build_transaction_def total_transferred_def getPaymentAmount_def Let_def
      split: option.splits if_splits)

section \<open>Theorems\<close>

text \<open>
  C1. The payment amount charged to the client is amount \<times> (1 + risk/50) at every risk
  the page can charge. \<open>getPaymentAmount\<close> reads the boolean \<open>doubleOrNothing\<close>: off is
  risk 0, on is risk 50, both in [0, 50], and for every invoice amount it returns the
  value of the formula at that risk: the invoice amount for risk 0 and twice the invoice
  amount for risk 50. Without a loaded invoice it returns 0.
\<close>

theorem getPaymentAmount_formula_at_0_and_50:
  "of_int (getPaymentAmount (Some d) don) = spec_payment (data_amount d) (if don then 50 else 0)
   \<and> of_int (getPaymentAmount (Some d) False) = spec_payment (data_amount d) 0
   \<and> of_int (getPaymentAmount (Some d) True) = spec_payment (data_amount d) 50
   \<and> getPaymentAmount (Some d) False = data_amount d
   \<and> getPaymentAmount (Some d) True = 2 * data_amount d
   \<and> getPaymentAmount None don = 0"
  by (simp add: getPaymentAmount_def spec_payment_def)

text \<open>
  C5, at the input where the code departs from it: double or nothing is on and the pool
  wallet address could not be fetched. The transaction carries the transfer of the invoice
  amount to the creator and no transfer to the pool, so 100 is transferred where the
  payment amount is 200, and the lottery entry is still created with a premium of 100.
\<close>

theorem handlePay_premium_not_transferred:
  "handlePay pay_world_ok (page_double None) =
     \<lparr>toasts = [toast_success ''Invoice paid!''],
      submitted = Some [SystemProgram_transfer ''client'' ''creator'' 100],
      createLotteryEntry_call =
        Some \<lparr>invoiceId = ''INV-1'', clientWallet = ''client'', premiumPaid = 100,
              riskSlider = 50, txSignature = ''sig1''\<rparr>,
      spin = Some False, marked_paid = True\<rparr>
   \<and> total_transferred [SystemProgram_transfer ''client'' ''creator'' 100] = 100
   \<and> getPaymentAmount (data (page_double None)) (doubleOrNothing (page_double None)) = 200"
  by (simp add: handlePay_def page_double_def invoice_100_def hasEnoughBalance_def
      getPaymentAmount_def build_transaction_def truthy_str_def pay_world_ok_def
      submit_def poll_confirmed after_payment_def Let_def total_transferred_def)

theorem handlePay_premium_not_transferred_witness:
  "publicKey (page_double None) = Some ''client''
   \<and> signTransaction (page_double None)
   \<and> data (page_double None) = Some invoice_100
   \<and> hasEnoughBalance (walletBalance (page_double None)) (data (page_double None)) True
   \<and> submitted (handlePay pay_world_ok (page_double None))
       = Some [SystemProgram_transfer ''client'' ''creator'' 100]
   \<and> map_option premiumPaid (createLotteryEntry_call (handlePay pay_world_ok (page_double None)))
       = Some 100"
  using handlePay_premium_not_transferred
  by (simp add: page_double_def hasEnoughBalance_def invoice_100_def getPaymentAmount_def)

text \<open>
  C6. In double or nothing mode the risk is fixed at 50: whenever \<open>handlePay\<close> reaches the
  call of \<open>createLotteryEntry\<close>, double or nothing is on, the entry is created for the
  invoice of the page with \<open>riskSlider = 50\<close>, the payment amount is exactly twice the
  invoice amount, and the premium of the entry is the invoice amount. With a positive
  invoice amount and a known pool wallet address, the transfers of the transaction that
  was sent add up to twice the invoice amount as well.
\<close>

theorem handlePay_entry_risk_50:
  assumes "createLotteryEntry_call (handlePay w s) = Some e"
  shows "doubleOrNothing s \<and> riskSlider e = 50
     \<and> (\<exists>d. data s = Some d \<and> invoiceId e = data_id d
            \<and> getPaymentAmount (data s) (doubleOrNothing s) = 2 * data_amount d
            \<and> premiumPaid e = data_amount d
            \<and> (0 < data_amount d \<and> truthy_str (poolWalletAddress s) \<longrightarrow>
                 (\<exists>tx. submitted (handlePay w s) = Some tx
                       \<and> total_transferred tx = 2 * data_amount d)))"
proof -
  obtain tx where tx: "submitted (handlePay w s) = Some tx"
    "build_transaction w (the (publicKey s)) (the (data s)) (doubleOrNothing s)
       (poolWalletAddress s) = Inr tx"
    using handlePay_submitted [OF assms] by blast
  from assms have a: "doubleOrNothing s \<and> riskSlider e = 50
     \<and> (\<exists>d. data s = Some d \<and> invoiceId e = data_id d
            \<and> getPaymentAmount (data s) (doubleOrNothing s) = 2 * data_amount d
            \<and> premiumPaid e = data_amount d)"
    by (auto simp add: handlePay_def failed_def getPaymentAmount_def dest!: submit_entry
        split: sum.splits if_splits)
  then obtain d where d: "data s = Some d" by blast
  have "0 < data_amount d \<and> truthy_str (poolWalletAddress s) \<longrightarrow>
           total_transferred tx = 2 * data_amount d"
    using build_transaction_total [OF tx(2)] d a by (auto simp add: getPaymentAmount_def)
  with a d tx(1) show ?thesis by auto
qed

theorem handlePay_entry_risk_50_witness:
  "createLotteryEntry_call (handlePay pay_world_ok (page_double (Some ''pool'')))
     = Some \<lparr>invoiceId = ''INV-1'', clientWallet = ''client'', premiumPaid = 100,
              riskSlider = 50, txSignature = ''sig1''\<rparr>
   \<and> doubleOrNothing (page_double (Some ''pool''))
   \<and> getPaymentAmount (data (page_double (Some ''pool''))) True = 200
   \<and> map_option total_transferred
        (submitted (handlePay pay_world_ok (page_double (Some ''pool'')))) = Some 200"
proof -
  have h: "createLotteryEntry_call (handlePay pay_world_ok (page_double (Some ''pool'')))
     = Some \<lparr>invoiceId = ''INV-1'', clientWallet = ''client'', premiumPaid = 100,
              riskSlider = 50, txSignature = ''sig1''\<rparr>"
    by (simp add: handlePay_double_pool)
  have d: "data (page_double (Some ''pool'')) = Some invoice_100"
    "data_amount invoice_100 = 100"
    "truthy_str (poolWalletAddress (page_double (Some ''pool'')))"
    by (simp_all add: page_double_def invoice_100_def truthy_str_def)
  from handlePay_entry_risk_50 [OF h] d h show ?thesis by auto
qed

text \<open>
  C8. A reminder for invoice \<open>i\<close> succeeds only when the invoice exists, its status is
  pending and it has a client email; then \<open>reminder_count\<close> grows by exactly 1,
  \<open>last_reminder_at\<close> is set to the current time, no other field of the row changes, and
  every other row and the clients stay as they are. When one of the three conditions
  fails, the response is 404 or 400 with a JSON error body and the database is unchanged
  (404 when the invoice does not exist). A response other than 200 never changes the
  database.
\<close>

theorem post_remind_updates_only_reminder:
  "(code (fst (post_remind w i db)) = 200 \<longrightarrow>
      (\<exists>r. getById db i = Some r \<and> status r = Some ''pending'' \<and> truthy_str (client_email r)
           \<and> getById (snd (post_remind w i db)) i
               = Some (r\<lparr>reminder_count := reminder_count r + 1,
                         last_reminder_at := Some (now w)\<rparr>))
      \<and> (\<forall>j. j \<noteq> i \<longrightarrow> getById (snd (post_remind w i db)) j = getById db j)
      \<and> clients (snd (post_remind w i db)) = clients db
      \<and> length (invoices (snd (post_remind w i db))) = length (invoices db))
   \<and> (\<not> (\<exists>r. getById db i = Some r \<and> status r = Some ''pending''
              \<and> truthy_str (client_email r)) \<longrightarrow>
        (code (fst (post_remind w i db)) = 404 \<or> code (fst (post_remind w i db)) = 400)
        \<and> (\<exists>m. body (fst (post_remind w i db)) = json_error m)
        \<and> snd (post_remind w i db) = db)
   \<and> (getById db i = None \<longrightarrow> code (fst (post_remind w i db)) = 404)
   \<and> (code (fst (post_remind w i db)) \<noteq> 200 \<longrightarrow> snd (post_remind w i db) = db)"
  by (auto simp add: post_remind_def error_response_def getById_updateReminder
      updateReminder_rest split: option.splits rpc.splits)

theorem post_remind_updates_only_reminder_witness:
  "code (fst (post_remind api_world_ok ''INV-1'' db_1)) = 200
   \<and> getById (snd (post_remind api_world_ok ''INV-1'' db_1)) ''INV-1''
       = Some (row_1\<lparr>reminder_count := 1, last_reminder_at := Some 1700000000\<rparr>)
   \<and> getById db_1 ''INV-2'' = None
   \<and> code (fst (post_remind api_world_ok ''INV-2'' db_1)) = 404
   \<and> snd (post_remind api_world_ok ''INV-2'' db_1) = db_1"
proof -
  have h: "code (fst (post_remind api_world_ok ''INV-1'' db_1)) = 200"
    by (simp add: post_remind_def getById_def db_1_def row_1_def truthy_str_def
        api_world_ok_def)
  have r: "getById db_1 ''INV-1'' = Some row_1"
    by (simp add: getById_def db_1_def row_1_def)
  have n: "getById db_1 ''INV-2'' = None"
    by (simp add: getById_def db_1_def row_1_def)
  have w: "now api_world_ok = 1700000000" "reminder_count row_1 = 0"
    by (simp_all add: api_world_ok_def row_1_def)
  from post_remind_updates_only_reminder [of api_world_ok "''INV-1''" db_1] h r w
  have a: "getById (snd (post_remind api_world_ok ''INV-1'' db_1)) ''INV-1''
       = Some (row_1\<lparr>reminder_count := 1, last_reminder_at := Some 1700000000\<rparr>)"
    by simp
  from post_remind_updates_only_reminder [of api_world_ok "''INV-2''" db_1] n
  have b: "code (fst (post_remind api_world_ok ''INV-2'' db_1)) = 404
   \<and> snd (post_remind api_world_ok ''INV-2'' db_1) = db_1"
    by simp
  from h a b n show ?thesis by simp
qed


text \<open>
  C9. \<open>verifyPayment\<close> is total and ignores its expectation arguments: on every input it
  returns a boolean and never throws; the boolean is false when the RPC lookup throws, when
  the transaction is not found, when it has no metadata and when it carries an on-chain
  error (a truthy \<open>err\<close>), and true for every found transaction without error (\<open>err\<close>
  null or falsy), whatever \<open>expectedRecipient\<close>, \<open>expectedAmount\<close> and \<open>expectedMint\<close>
  are.
\<close>

theorem verifyPayment_total_ignores_expectations:
  "(\<exists>b. verifyPayment conn sg r a m = Inr b)
   \<and> verifyPayment conn sg r a m = verifyPayment conn sg r' a' m'
   \<and> verifyPayment (conn(sg := Throws)) sg r a m = Inr False
   \<and> verifyPayment (conn(sg := Returns None)) sg r a m = Inr False
   \<and> verifyPayment (conn(sg := Returns (Some (t\<lparr>meta := None\<rparr>)))) sg r a m = Inr False
   \<and> verifyPayment
        (conn(sg := Returns (Some (t\<lparr>meta := Some (mt\<lparr>err := Some (c # cs)\<rparr>)\<rparr>)))) sg r a m
       = Inr False
   \<and> verifyPayment (conn(sg := Returns (Some (t\<lparr>meta := Some (mt\<lparr>err := None\<rparr>)\<rparr>)))) sg r a m
       = Inr True
   \<and> verifyPayment (conn(sg := Returns (Some (t\<lparr>meta := Some (mt\<lparr>err := Some []\<rparr>)\<rparr>)))) sg r a m
       = Inr True"
  by (auto simp add: verifyPayment_def verifyPayment_try_def truthy_str_def
      split: rpc.split option.split sum.split)

lemma generatePaymentLink_API_URL:
  "generatePaymentLink lib u1 i rc am tm mo = generatePaymentLink lib u2 i rc am tm mo"
  by (simp add: generatePaymentLink_def)

lemma generatePaymentLink_link:
  "generatePaymentLink lib u i rc am tm mo
     = map_option
         (\<lambda>pk. ''solana:'' @ pk @ ''?''
               @ URLSearchParams_toString lib (payment_params lib i am tm mo))
         (PublicKey_new lib rc)"
  by (simp add: generatePaymentLink_def split: option.split)

lemma payment_params_reference:
  "map_of (payment_params lib i am tm mo) ''reference''
     = Some (Keypair_fromSeed lib (sha256 lib i))"
  by (simp add: payment_params_def reference_def)

lemma payment_params_amount:
  "map_of (payment_params lib i am tm mo) ''amount''
     = Some (Number_toString lib
               (of_int am / (if tm = SOL_MINT then 10 ^ 9 else 10 ^ 6)))"
  by (simp add: payment_params_def decimalAmount_def decimals_def)

text \<open>
  C10. \<open>generatePaymentLink\<close> is deterministic: the link is a function of the five
  arguments, whatever \<open>process.env.API_URL\<close> holds, and it is \<open>solana:\<close>, the recipient
  key, \<open>?\<close> and the serialised parameters (no link when the recipient is not a public
  key). The \<open>reference\<close> parameter is the public key of the keypair seeded with the
  SHA-256 hash of the invoice id, the same for every recipient, amount, mint and memo. The
  \<open>amount\<close> parameter is the amount divided by \<open>10^9\<close> for the native SOL mint and by
  \<open>10^6\<close> for every other mint.
\<close>

theorem generatePaymentLink_deterministic:
  "generatePaymentLink lib u1 i rc am tm mo = generatePaymentLink lib u2 i rc am tm mo
   \<and> generatePaymentLink lib u1 i rc am tm mo
     = map_option
         (\<lambda>pk. ''solana:'' @ pk @ ''?''
               @ URLSearchParams_toString lib (payment_params lib i am tm mo))
         (PublicKey_new lib rc)
   \<and> map_of (payment_params lib i am tm mo) ''reference''
     = Some (Keypair_fromSeed lib (sha256 lib i))
   \<and> map_of (payment_params lib i am' tm' mo') ''reference''
     = map_of (payment_params lib i am tm mo) ''reference''
   \<and> map_of (payment_params lib i am tm mo) ''amount''
     = Some (Number_toString lib
               (of_int am / (if tm = SOL_MINT then 10 ^ 9 else 10 ^ 6)))"
  using generatePaymentLink_API_URL [of lib u1 i rc am tm mo u2]
    generatePaymentLink_link [of lib u1 i rc am tm mo]
    payment_params_reference [of lib i am tm mo]
    payment_params_reference [of lib i am' tm' mo']
    payment_params_amount [of lib i am tm mo]
  by simp


lemma post_invoice_400:
  "missing_fields b \<Longrightarrow>
     post_invoice w b db = (\<lparr>code = 400, body = json_error ''Missing required fields''\<rparr>, db)"
  by (simp add: post_invoice_def missing_fields_def error_response_def)

lemma post_invoice_500:
  "\<not> missing_fields b \<Longrightarrow>
   generatePaymentLink w (API_URL w) (''INV-'' @ toUpperCase (nanoid w 8)) (the (creatorWallet b))
      (the (body_amount b)) (the (tokenMint b)) (body_memo b) = None
   \<or> getById db (''INV-'' @ toUpperCase (nanoid w 8)) \<noteq> None \<Longrightarrow>
     post_invoice w b db = (\<lparr>code = 500, body = json_error ''Failed to create invoice''\<rparr>, db)"
  by (auto simp add: post_invoice_def missing_fields_def error_response_def Let_def
      invoice_create_def split: option.splits)

lemma post_invoice_201:
  assumes "\<not> missing_fields b"
    and "generatePaymentLink w (API_URL w) (''INV-'' @ toUpperCase (nanoid w 8))
           (the (creatorWallet b)) (the (body_amount b)) (the (tokenMint b)) (body_memo b)
         = Some l"
    and "getById db (''INV-'' @ toUpperCase (nanoid w 8)) = None"
  shows "\<exists>r. post_invoice w b db
           = (\<lparr>code = 201,
               body = json_created (Some r) l
                        (''/pay/'' @ ''INV-'' @ toUpperCase (nanoid w 8) @ ''/qr'')\<rparr>,
              db\<lparr>invoices := invoices db @ [r]\<rparr>)
         \<and> inv_id r = ''INV-'' @ toUpperCase (nanoid w 8)
         \<and> creator_wallet r = the (creatorWallet b)
         \<and> amount r = the (body_amount b)
         \<and> token_mint r = the (tokenMint b)
         \<and> due_date r = the (dueDate b)
         \<and> status r = Some ''pending''
         \<and> payment_link r = Some l
         \<and> reminder_count r = 0"
proof -
  let ?i = "''INV-'' @ toUpperCase (nanoid w 8)"
  let ?r = "\<lparr>inv_id = ?i, creator_wallet = the (creatorWallet b),
             client_email = or_null (clientEmail b), client_wallet = None,
             amount = the (body_amount b), token_mint = the (tokenMint b),
             due_date = the (dueDate b), memo = or_null (body_memo b),
             status = Some ''pending'', created_at = now w, paid_at = None,
             tx_signature = None, on_chain_address = None,
             payment_link = Some l, milestones = body_milestones b,
             reminder_count = 0, last_reminder_at = None\<rparr>"
  have c: "invoice_create ?r db = Some (db\<lparr>invoices := invoices db @ [?r]\<rparr>)"
    using assms(3) by (simp add: invoice_create_def)
  then have g: "getById (db\<lparr>invoices := invoices db @ [?r]\<rparr>) ?i = Some ?r"
    using getById_create_same [OF c] by simp
  have "post_invoice w b db
           = (\<lparr>code = 201, body = json_created (Some ?r) l (''/pay/'' @ ?i @ ''/qr'')\<rparr>,
              db\<lparr>invoices := invoices db @ [?r]\<rparr>)"
    using assms(1,2) c g
    by (simp add: post_invoice_def missing_fields_def Let_def)
  then show ?thesis by (intro exI [of _ ?r]) simp
qed

lemma invoice_id_ok: "''INV-'' @ toUpperCase (nanoid api_world_ok 8) = ''INV-AB3X_9QZ''"
  by code_simp

lemma generatePaymentLink_ok:
  "generatePaymentLink api_world_ok None ''INV-AB3X_9QZ'' SOL_MINT 1500000000 SOL_MINT None
    = Some (''solana:'' @ SOL_MINT
            @ ''?amount=num&reference=key:sha256:INV-AB3X_9QZ&label=InvoiceNow&message=Invoice INV-AB3X_9QZ'')"
  by (simp add: generatePaymentLink_def api_world_ok_def SOL_MINT_def payment_params_def
      URLSearchParams_toString_def reference_def truthy_str_def)

text \<open>
  C7, as the code has it. Creating an invoice answers 400 with a JSON error body and
  inserts no row whenever one of \<open>creatorWallet\<close>, \<open>amount\<close>, \<open>tokenMint\<close>, \<open>dueDate\<close>
  is missing (falsy). When all four are present, the payment link can be generated (the
  creator wallet is a public key) and the generated id is not in the table yet, the
  handler appends exactly one row, with status pending and the payment link, and answers
  201 with the stored row, the payment link and the QR code URL. When all four are
  present but the link cannot be generated or the id is taken, it answers 500 with a JSON
  error body and inserts no row.
\<close>

theorem post_invoice_outcomes:
  "(missing_fields b \<longrightarrow>
      post_invoice w b db = (\<lparr>code = 400, body = json_error ''Missing required fields''\<rparr>, db))
   \<and> (\<not> missing_fields b
       \<and> generatePaymentLink w (API_URL w) (''INV-'' @ toUpperCase (nanoid w 8))
           (the (creatorWallet b)) (the (body_amount b)) (the (tokenMint b)) (body_memo b)
         = Some l
       \<and> getById db (''INV-'' @ toUpperCase (nanoid w 8)) = None \<longrightarrow>
       (\<exists>r. post_invoice w b db
           = (\<lparr>code = 201,
               body = json_created (Some r) l
                        (''/pay/'' @ ''INV-'' @ toUpperCase (nanoid w 8) @ ''/qr'')\<rparr>,
              db\<lparr>invoices := invoices db @ [r]\<rparr>)
         \<and> inv_id r = ''INV-'' @ toUpperCase (nanoid w 8)
         \<and> creator_wallet r = the (creatorWallet b)
         \<and> amount r = the (body_amount b)
         \<and> token_mint r = the (tokenMint b)
         \<and> due_date r = the (dueDate b)
         \<and> status r = Some ''pending''
         \<and> payment_link r = Some l
         \<and> reminder_count r = 0))
   \<and> (\<not> missing_fields b
       \<and> (generatePaymentLink w (API_URL w) (''INV-'' @ toUpperCase (nanoid w 8))
            (the (creatorWallet b)) (the (body_amount b)) (the (tokenMint b)) (body_memo b)
          = None
          \<or> getById db (''INV-'' @ toUpperCase (nanoid w 8)) \<noteq> None) \<longrightarrow>
       post_invoice w b db
         = (\<lparr>code = 500, body = json_error ''Failed to create invoice''\<rparr>, db))"
  using post_invoice_400 [of b w db] post_invoice_201 [of b w l db] post_invoice_500 [of b w db]
  by blast

theorem post_invoice_outcomes_witness:
  "\<not> missing_fields body_ok
   \<and> code (fst (post_invoice api_world_ok body_ok db_1)) = 201
   \<and> length (invoices (snd (post_invoice api_world_ok body_ok db_1))) = 2
   \<and> missing_fields (body_ok\<lparr>body_amount := Some 0\<rparr>)
   \<and> post_invoice api_world_ok (body_ok\<lparr>body_amount := Some 0\<rparr>) db_1
       = (\<lparr>code = 400, body = json_error ''Missing required fields''\<rparr>, db_1)"
proof -
  have m: "\<not> missing_fields body_ok"
    by (simp add: missing_fields_def body_ok_def truthy_str_def truthy_num_def SOL_MINT_def)
  have v: "the (creatorWallet body_ok) = SOL_MINT" "the (body_amount body_ok) = 1500000000"
    "the (tokenMint body_ok) = SOL_MINT" "body_memo body_ok = None"
    "API_URL api_world_ok = None"
    by (simp_all add: body_ok_def api_world_ok_def)
  have f: "getById db_1 ''INV-AB3X_9QZ'' = None"
    by (simp add: getById_def db_1_def row_1_def)
  have z: "missing_fields (body_ok\<lparr>body_amount := Some 0\<rparr>)"
    by (simp add: missing_fields_def truthy_num_def)
  have n: "length (invoices db_1) = 1"
    by (simp add: db_1_def)
  from post_invoice_outcomes [where b = body_ok and w = api_world_ok and db = db_1
      and l = "''solana:'' @ SOL_MINT
            @ ''?amount=num&reference=key:sha256:INV-AB3X_9QZ&label=InvoiceNow&message=Invoice INV-AB3X_9QZ''"]
    m v f invoice_id_ok generatePaymentLink_ok n
  have a: "code (fst (post_invoice api_world_ok body_ok db_1)) = 201
   \<and> length (invoices (snd (post_invoice api_world_ok body_ok db_1))) = 2"
    by auto
  from post_invoice_outcomes [where b = "body_ok\<lparr>body_amount := Some 0\<rparr>"
      and w = api_world_ok and db = db_1] z
  have b: "post_invoice api_world_ok (body_ok\<lparr>body_amount := Some 0\<rparr>) db_1
       = (\<lparr>code = 400, body = json_error ''Missing required fields''\<rparr>, db_1)"
    by simp
  from m a z b show ?thesis by simp
qed

text \<open>
  C7, as stated, promises 201 and one new row whenever the four fields are present. With
  a creator wallet that is no public key, \<open>generatePaymentLink\<close> throws, and the handler
  answers 500 and inserts nothing.
\<close>

theorem post_invoice_invalid_wallet_500:
  "\<not> missing_fields (body_ok\<lparr>creatorWallet := Some ''not-a-wallet''\<rparr>)
   \<and> post_invoice api_world_ok (body_ok\<lparr>creatorWallet := Some ''not-a-wallet''\<rparr>) db_1
      = (\<lparr>code = 500, body = json_error ''Failed to create invoice''\<rparr>, db_1)"
  by (simp add: post_invoice_def missing_fields_def body_ok_def truthy_str_def truthy_num_def
      SOL_MINT_def generatePaymentLink_def api_world_ok_def error_response_def Let_def)

lemma invoices_post_invoice:
  "invoices (snd (post_invoice w b db)) = invoices db
   \<or> (\<exists>r. invoices (snd (post_invoice w b db)) = invoices db @ [r]
          \<and> status r = Some ''pending'')"
  by (auto simp add: post_invoice_def Let_def invoice_create_def split: option.splits if_splits)

lemma invoices_updateStatus:
  "invoices (updateStatus st pa sg i db)
     = map (\<lambda>r. if inv_id r = i then r\<lparr>status := st, paid_at := pa, tx_signature := sg\<rparr>
               else r)
         (invoices db)"
  by (simp add: updateStatus_def)

lemma invoices_updateReminder:
  "invoices (updateReminder t i db)
     = map (\<lambda>r. if inv_id r = i
               then r\<lparr>reminder_count := reminder_count r + 1, last_reminder_at := Some t\<rparr>
               else r)
         (invoices db)"
  by (simp add: updateReminder_def)

lemma ids_updateReminder:
  "map inv_id (invoices (updateReminder t i db)) = map inv_id (invoices db)"
  unfolding updateReminder_def by (simp add: comp_def cong: map_cong)

lemma ids_updateStatus:
  "map inv_id (invoices (updateStatus st pa sg i db)) = map inv_id (invoices db)"
  unfolding updateStatus_def by (simp add: comp_def cong: map_cong)

text \<open>No handler removes a row of \<open>invoices\<close>: the ids stay, in order, and new ones follow.\<close>

lemma ids_handle:
  "\<exists>new. map inv_id (invoices (snd (handle w req db))) = map inv_id (invoices db) @ new"
proof (cases req)
  case (POST_invoice b)
  then show ?thesis
    using invoices_post_invoice [of w b db] by auto
next
  case (POST_remind i)
  then show ?thesis
    by (auto simp add: post_remind_def ids_updateReminder
        split: option.splits rpc.splits)
next
  case (PATCH_status i st sg)
  then show ?thesis
    by (auto simp add: patch_status_def Let_def ids_updateStatus
        split: option.splits js_string.splits)
next
  case (POST_client b)
  then show ?thesis
    by (auto simp add: post_client_def Let_def client_create_def split: option.splits if_splits)
qed (auto simp add: get_invoices_def get_invoice_def get_qr_def get_clients_def
      split: option.splits rpc.splits)

lemma valid_handle:
  assumes "\<forall>r \<in> set (invoices db). valid_status (status r)"
    and "\<forall>i st sg. req = PATCH_status i st sg \<longrightarrow> (\<exists>s. st = Str s \<and> valid_status (Some s))"
  shows "\<forall>r \<in> set (invoices (snd (handle w req db))). valid_status (status r)"
proof (cases req)
  case (POST_invoice b)
  then show ?thesis
    using invoices_post_invoice [of w b db] assms(1) by (auto simp add: valid_status_def)
next
  case (POST_remind i)
  then show ?thesis
    using assms(1)
    by (auto simp add: post_remind_def invoices_updateReminder
        split: option.splits rpc.splits if_splits)
next
  case (PATCH_status i st sg)
  then show ?thesis
    using assms
    by (auto simp add: patch_status_def Let_def invoices_updateStatus
        split: option.splits js_string.splits if_splits)
next
  case (POST_client b)
  then show ?thesis
    using assms(1)
    by (auto simp add: post_client_def Let_def client_create_def split: option.splits if_splits)
qed (use assms(1) in \<open>auto simp add: get_invoices_def get_invoice_def get_qr_def
      get_clients_def split: option.splits rpc.splits\<close>)

lemma patch_status_stores:
  "getById db i = Some r \<Longrightarrow>
   getById (snd (patch_status w i (Str s) sg db)) i
     = Some (r\<lparr>status := Some s, paid_at := (if s = ''paid'' then Some (now w) else None),
               tx_signature := or_null sg\<rparr>)"
  by (simp add: patch_status_def Let_def getById_updateStatus)

lemma patch_status_stores_null:
  "getById db i = Some r \<Longrightarrow> st = Undefined \<or> st = Null \<Longrightarrow>
   getById (snd (patch_status w i st sg db)) i
     = Some (r\<lparr>status := None, paid_at := None, tx_signature := or_null sg\<rparr>)"
  by (auto simp add: patch_status_def Let_def getById_updateStatus)

text \<open>
  C4, as the code has it. No operation of the invoice API deletes an invoice row: after
  every request the ids of the table are the old ones, in order, followed by the new ones.
  A row inserted by \<open>POST /\<close> has status pending. \<open>PATCH /:id/status\<close> stores the status
  of the request as it is, without comparing it with pending, paid, cancelled and
  escrow_funded: a string is stored as that string, a missing or null status as NULL. So
  the statuses of the table stay among the four as long as every PATCH request carries
  one of the four strings.
\<close>

theorem invoice_rows_kept_status_unchecked:
  "(\<exists>new. map inv_id (invoices (snd (handle w req db))) = map inv_id (invoices db) @ new)
   \<and> (invoices (snd (post_invoice w b db)) = invoices db
       \<or> (\<exists>r. invoices (snd (post_invoice w b db)) = invoices db @ [r]
              \<and> status r = Some ''pending''))
   \<and> (getById db i = Some r \<longrightarrow>
        getById (snd (patch_status w i (Str s) sg db)) i
          = Some (r\<lparr>status := Some s,
                    paid_at := (if s = ''paid'' then Some (now w) else None),
                    tx_signature := or_null sg\<rparr>))
   \<and> (getById db i = Some r \<and> (st' = Undefined \<or> st' = Null) \<longrightarrow>
        getById (snd (patch_status w i st' sg db)) i
          = Some (r\<lparr>status := None, paid_at := None, tx_signature := or_null sg\<rparr>))
   \<and> ((\<forall>r \<in> set (invoices db). valid_status (status r))
       \<and> (\<forall>i st sg. req = PATCH_status i st sg \<longrightarrow>
             (\<exists>s. st = Str s \<and> valid_status (Some s))) \<longrightarrow>
       (\<forall>r \<in> set (invoices (snd (handle w req db))). valid_status (status r)))"
  using ids_handle [of w req db] invoices_post_invoice [of w b db]
    patch_status_stores [of db i r w s sg] patch_status_stores_null [of db i r st' w sg]
    valid_handle [of db req w]
  by blast

theorem invoice_rows_kept_status_unchecked_witness:
  "getById db_1 ''INV-1'' = Some row_1
   \<and> list_all (\<lambda>r. valid_status (status r)) (invoices db_1)
   \<and> getById (snd (patch_status api_world_ok ''INV-1'' (Str ''paid'') (Some ''sig1'') db_1))
        ''INV-1''
       = Some (row_1\<lparr>status := Some ''paid'', paid_at := Some 1700000000,
                     tx_signature := Some ''sig1''\<rparr>)
   \<and> getById (snd (patch_status api_world_ok ''INV-1'' Undefined (Some ''sig1'') db_1))
        ''INV-1''
       = Some (row_1\<lparr>status := None, paid_at := None, tx_signature := Some ''sig1''\<rparr>)
   \<and> list_all (\<lambda>r. valid_status (status r))
        (invoices (snd (handle api_world_ok
                          (PATCH_status ''INV-1'' (Str ''paid'') (Some ''sig1'')) db_1)))"
proof -
  have g: "getById db_1 ''INV-1'' = Some row_1"
    by (simp add: getById_def db_1_def row_1_def)
  have v: "\<forall>r \<in> set (invoices db_1). valid_status (status r)"
    by (simp add: db_1_def row_1_def valid_status_def)
  have p: "\<forall>i st sg. PATCH_status ''INV-1'' (Str ''paid'') (Some ''sig1'') = PATCH_status i st sg
             \<longrightarrow> (\<exists>s. st = Str s \<and> valid_status (Some s))"
    by (simp add: valid_status_def)
  have n: "now api_world_ok = 1700000000" "or_null (Some ''sig1'') = Some ''sig1''"
    by (simp_all add: api_world_ok_def or_null_def truthy_str_def)
  from invoice_rows_kept_status_unchecked
      [where w = api_world_ok and db = db_1 and i = "''INV-1''" and r = row_1
        and s = "''paid''" and sg = "Some ''sig1''" and st' = Undefined
        and req = "PATCH_status ''INV-1'' (Str ''paid'') (Some ''sig1'')"]
    g v p n
  show ?thesis by (simp add: list_all_iff)
qed

text \<open>
  C4, as stated, has the PATCH handler store one of the four status values only. A
  request with the status \<open>bogus\<close> for an existing invoice is answered with 200 and the
  row then carries that status.
\<close>

theorem patch_status_stores_any_string:
  "valid_status (status row_1)
   \<and> getById db_1 ''INV-1'' = Some row_1
   \<and> code (fst (patch_status api_world_ok ''INV-1'' (Str ''bogus'') None db_1)) = 200
   \<and> getById (snd (patch_status api_world_ok ''INV-1'' (Str ''bogus'') None db_1)) ''INV-1''
       = Some (row_1\<lparr>status := Some ''bogus''\<rparr>)
   \<and> \<not> valid_status (Some ''bogus'')"
  by (simp add: valid_status_def row_1_def db_1_def getById_def patch_status_def Let_def
      updateStatus_def or_null_def truthy_str_def)

text \<open>
  C3. For a pool with a balance that is not negative, a single-win cap of 10% and a
  minimum reserve of 20%, every settlement pays at most 10% of the pool balance and leaves
  at least 20% of that balance in the pool; the pool loses exactly the payout. When the
  entry wins and paying the invoice amount would break one of the two constraints, the
  settlement fails closed: nothing is paid, and pool and entry stay as they were.
\<close>

theorem settle_payout_within_pool_limits:
  assumes "0 \<le> balance pool" "max_win_percent pool = 10" "min_reserve_percent pool = 20"
  shows "payout (settle pool e a d t) * 100 \<le> balance pool * 10
     \<and> balance (pool_after (settle pool e a d t)) * 100 \<ge> balance pool * 20
     \<and> balance (pool_after (settle pool e a d t)) = balance pool - payout (settle pool e a d t)
     \<and> (entry_outcome e = None \<and> d < risk_percent e
          \<and> (a * 100 > balance pool * 10 \<or> (balance pool - a) * 100 < balance pool * 20)
        \<longrightarrow> result (settle pool e a d t) = FailedClosed
            \<and> payout (settle pool e a d t) = 0
            \<and> pool_after (settle pool e a d t) = pool
            \<and> entry_after (settle pool e a d t) = e)"
  using assms
  by (auto simp add: settle_def payout_allowed_def Let_def split: option.splits)

theorem settle_payout_within_pool_limits_witness:
  "0 \<le> balance pool_1000 \<and> max_win_percent pool_1000 = 10
   \<and> min_reserve_percent pool_1000 = 20
   \<and> payout (settle pool_1000 entry_1 100 7 1700000000) = 100
   \<and> balance (pool_after (settle pool_1000 entry_1 100 7 1700000000)) = 900
   \<and> result (settle pool_1000 entry_1 101 7 1700000000) = FailedClosed
   \<and> payout (settle pool_1000 entry_1 101 7 1700000000) = 0
   \<and> pool_after (settle pool_1000 entry_1 101 7 1700000000) = pool_1000"
proof -
  have h: "0 \<le> balance pool_1000" "max_win_percent pool_1000 = 10"
    "min_reserve_percent pool_1000 = 20"
    by (simp_all add: pool_1000_def)
  have p: "payout (settle pool_1000 entry_1 100 7 1700000000) = 100"
    by (simp add: settle_def payout_allowed_def pool_1000_def entry_1_def)
  have e: "entry_outcome entry_1 = None" "7 < risk_percent entry_1" "balance pool_1000 = 1000"
    by (simp_all add: entry_1_def pool_1000_def)
  from settle_payout_within_pool_limits [OF h, of entry_1 100 7 1700000000] p e
  have a: "balance (pool_after (settle pool_1000 entry_1 100 7 1700000000)) = 900"
    by simp
  from settle_payout_within_pool_limits [OF h, of entry_1 101 7 1700000000] e
  have b: "result (settle pool_1000 entry_1 101 7 1700000000) = FailedClosed
   \<and> payout (settle pool_1000 entry_1 101 7 1700000000) = 0
   \<and> pool_after (settle pool_1000 entry_1 101 7 1700000000) = pool_1000"
    by simp
  from h p a b show ?thesis by simp
qed

text \<open>
  C2. Settlement is idempotent. When a settlement records an outcome, settling the
  resulting entry again, with any draw and at any time, reports the same outcome, leaves
  the entry (outcome and settlement time) and the pool as the first settlement left them,
  and pays nothing. A payout is never followed by a second one, and an entry that carries
  an outcome is never settled anew.
\<close>

theorem settle_idempotent:
  "(result (settle pool e a d1 t1) = Settled oc \<longrightarrow>
      result (settle (pool_after (settle pool e a d1 t1)) (entry_after (settle pool e a d1 t1))
                a' d2 t2) = AlreadySettled oc
      \<and> entry_outcome (entry_after (settle pool e a d1 t1)) = Some oc
      \<and> settled_at (entry_after (settle pool e a d1 t1)) = Some t1
      \<and> entry_after (settle (pool_after (settle pool e a d1 t1))
                       (entry_after (settle pool e a d1 t1)) a' d2 t2)
          = entry_after (settle pool e a d1 t1)
      \<and> pool_after (settle (pool_after (settle pool e a d1 t1))
                       (entry_after (settle pool e a d1 t1)) a' d2 t2)
          = pool_after (settle pool e a d1 t1)
      \<and> payout (settle (pool_after (settle pool e a d1 t1))
                       (entry_after (settle pool e a d1 t1)) a' d2 t2) = 0)
   \<and> (payout (settle pool e a d1 t1) \<noteq> 0 \<longrightarrow>
        payout (settle (pool_after (settle pool e a d1 t1))
                       (entry_after (settle pool e a d1 t1)) a' d2 t2) = 0)
   \<and> (entry_outcome e = Some oc \<longrightarrow>
        settle pool e a d1 t1
          = \<lparr>result = AlreadySettled oc, payout = 0, pool_after = pool, entry_after = e\<rparr>)"
  by (auto simp add: settle_def Let_def split: option.splits if_splits)

theorem settle_idempotent_witness:
  "result (settle pool_1000 entry_1 100 7 1700000000) = Settled won
   \<and> payout (settle pool_1000 entry_1 100 7 1700000000) = 100
   \<and> result (settle (pool_after (settle pool_1000 entry_1 100 7 1700000000))
               (entry_after (settle pool_1000 entry_1 100 7 1700000000)) 100 99 1700000060)
       = AlreadySettled won
   \<and> payout (settle (pool_after (settle pool_1000 entry_1 100 7 1700000000))
               (entry_after (settle pool_1000 entry_1 100 7 1700000000)) 100 99 1700000060)
       = 0
   \<and> balance (pool_after (settle (pool_after (settle pool_1000 entry_1 100 7 1700000000))
               (entry_after (settle pool_1000 entry_1 100 7 1700000000)) 100 99 1700000060))
       = 900"
proof -
  have h: "result (settle pool_1000 entry_1 100 7 1700000000) = Settled won"
    by (simp add: settle_def payout_allowed_def pool_1000_def entry_1_def)
  have p: "payout (settle pool_1000 entry_1 100 7 1700000000) = 100"
    "balance (pool_after (settle pool_1000 entry_1 100 7 1700000000)) = 900"
    by (simp_all add: settle_def payout_allowed_def pool_1000_def entry_1_def)
  from settle_idempotent [of pool_1000 entry_1 100 7 1700000000 won 100 99 1700000060] h p
  show ?thesis by simp
qed

end

